theory Spec2Isabelle
  imports Complex_Main
begin

section \<open>The sync progress tracker\<close>

text \<open>
  A shallow embedding of \<^verbatim>\<open>supabase/functions/magento-sync/sync_progress.ts\<close>:
  the functions \<^verbatim>\<open>getSyncProgress\<close> and \<^verbatim>\<open>updateSyncProgress\<close>.
  Both are written against the table \<^verbatim>\<open>sync_progress\<close> of a Postgres database that
  they reach through the supabase client; the table is an explicit state here, and
  what the client answers to each request is decided by that state and by a fault
  that the environment may inject into the request. The messages written to the
  console are left out, and so is \<^verbatim>\<open>recordSyncHistory\<close>, which writes to another table
  and returns nothing.
\<close>

subsection \<open>Rows of the table\<close>

text \<open>
  Timestamps are the milliseconds of \<^verbatim>\<open>Date.getTime()\<close>; the ISO strings the source
  stores are \<^verbatim>\<open>toISOString()\<close> of such a value and are parsed back by
  \<^verbatim>\<open>new Date(data.updated_at)\<close>. The status is the string the caller passes.
\<close>

record row =
  row_id :: nat
  store_id :: string
  status :: string
  orders_processed :: int
  total_orders :: int
  updated_at :: int
  "notes" :: "string option"
  connection_id :: string
  current_page :: int
  started_at :: int

subsection \<open>The database and the client\<close>

datatype db_call =
  CheckTable | CreateTable | SelectInProgress string | SelectLatest string
  | UpdateRow nat | InsertRow

text \<open>
  \<open>sync_progress\<close> is \<open>None\<close> while the table does not exist. \<open>calls\<close> is the
  sequence of requests the database has received, oldest first.
\<close>

record db =
  sync_progress :: "row list option"
  calls :: "db_call list"

text \<open>
  A request either resolves to the pair \<^verbatim>\<open>{ data, error }\<close> or its promise rejects
  (which the \<^verbatim>\<open>try\<close> blocks of the source catch). A fault makes a request fail
  without touching the table.
\<close>

datatype fault = ErrorReply string | Rejects string

datatype 'a response = Reply "'a option" "string option" | Rejected string

text \<open>
  Modelled from the spec: the client \<^verbatim>\<open>../_shared/db_client.ts\<close> and the database
  behind it are not part of the sources. The spec asks of the store a lookup by
  \<open>storeId\<close> filtered by status, a lookup of the most recent record by \<open>updatedAt\<close>,
  an insert with a generated id, an update by id and an idempotent provisioning
  operation. Each request is recorded in \<open>calls\<close>; a faulty request leaves the table
  as it is.
\<close>

definition db_request ::
  "fault option \<Rightarrow> db_call \<Rightarrow> (row list option \<Rightarrow> 'a response \<times> row list option) \<Rightarrow> db
    \<Rightarrow> 'a response \<times> db" where
  "db_request f c run d =
     (let d1 = d\<lparr>calls := calls d @ [c]\<rparr> in
      case f of
        Some (Rejects m) \<Rightarrow> (Rejected m, d1)
      | Some (ErrorReply m) \<Rightarrow> (Reply None (Some m), d1)
      | None \<Rightarrow> (case run (sync_progress d) of (r, t) \<Rightarrow> (r, d1\<lparr>sync_progress := t\<rparr>)))"

definition no_table :: "'a response" where
  "no_table = Reply None (Some ''relation public.sync_progress does not exist'')"

text \<open>The query on \<^verbatim>\<open>information_schema.tables\<close>, with \<^verbatim>\<open>maybeSingle()\<close>.\<close>

definition select_table_exists :: "fault option \<Rightarrow> db \<Rightarrow> unit response \<times> db" where
  "select_table_exists f =
     db_request f CheckTable
       (\<lambda>t. (Reply (case t of None \<Rightarrow> None | Some _ \<Rightarrow> Some ()) None, t))"

text \<open>The remote procedure \<^verbatim>\<open>create_sync_progress_table\<close>: idempotent.\<close>

definition rpc_create_sync_progress_table :: "fault option \<Rightarrow> db \<Rightarrow> unit response \<times> db" where
  "rpc_create_sync_progress_table f =
     db_request f CreateTable
       (\<lambda>t. (Reply None None, Some (case t of None \<Rightarrow> [] | Some rows \<Rightarrow> rows)))"

text \<open>
  \<^verbatim>\<open>select('id').eq('store_id', s).eq('status', 'in_progress').maybeSingle()\<close>:
  no row gives \<^verbatim>\<open>data = null\<close>, one row gives its id, several rows are an error.
\<close>

definition select_in_progress :: "fault option \<Rightarrow> string \<Rightarrow> db \<Rightarrow> nat response \<times> db" where
  "select_in_progress f s =
     db_request f (SelectInProgress s)
       (\<lambda>t. case t of
               None \<Rightarrow> (no_table, t)
             | Some rows \<Rightarrow>
                 (case filter (\<lambda>r. store_id r = s \<and> status r = ''in_progress'') rows of
                    [] \<Rightarrow> (Reply None None, t)
                  | [r] \<Rightarrow> (Reply (Some (row_id r)) None, t)
                  | _ \<Rightarrow> (Reply None (Some ''JSON object requested, multiple rows returned''), t)))"

text \<open>
  \<^verbatim>\<open>order('updated_at', { ascending: false }).limit(1)\<close>: a row whose \<open>updated_at\<close>
  is greatest; among equal ones the first of the table.
\<close>

fun latest_row :: "row list \<Rightarrow> row option" where
  "latest_row [] = None"
| "latest_row (r # rs) =
     (case latest_row rs of
        None \<Rightarrow> Some r
      | Some m \<Rightarrow> if updated_at r < updated_at m then Some m else Some r)"

definition select_latest :: "fault option \<Rightarrow> string \<Rightarrow> db \<Rightarrow> row response \<times> db" where
  "select_latest f s =
     db_request f (SelectLatest s)
       (\<lambda>t. case t of
               None \<Rightarrow> (no_table, t)
             | Some rows \<Rightarrow> (Reply (latest_row (filter (\<lambda>r. store_id r = s) rows)) None, t))"

text \<open>\<^verbatim>\<open>update(patch).eq('id', i)\<close>.\<close>

definition update_by_id :: "fault option \<Rightarrow> nat \<Rightarrow> (row \<Rightarrow> row) \<Rightarrow> db \<Rightarrow> unit response \<times> db" where
  "update_by_id f i patch =
     db_request f (UpdateRow i)
       (\<lambda>t. case t of
               None \<Rightarrow> (no_table, t)
             | Some rows \<Rightarrow>
                 (Reply None None, Some (map (\<lambda>r. if row_id r = i then patch r else r) rows)))"

text \<open>\<^verbatim>\<open>insert(payload)\<close>: the database gives the new row an id no row has.\<close>

definition fresh_id :: "row list \<Rightarrow> nat" where
  "fresh_id rows = Suc (foldr max (map row_id rows) 0)"

definition insert_row :: "fault option \<Rightarrow> row \<Rightarrow> db \<Rightarrow> unit response \<times> db" where
  "insert_row f payload =
     db_request f InsertRow
       (\<lambda>t. case t of
               None \<Rightarrow> (no_table, t)
             | Some rows \<Rightarrow>
                 (Reply None None, Some (rows @ [payload\<lparr>row_id := fresh_id rows\<rparr>])))"

subsection \<open>getSyncProgress\<close>

text \<open>
  What the environment decides during one call: the fault of each request and the
  two readings of the clock (\<^verbatim>\<open>new Date()\<close> in line 90 and in line 101).
\<close>

record get_env =
  get_tableCheck :: "fault option"
  get_fetch :: "fault option"
  get_update :: "fault option"
  get_clock :: int
  get_clock_write :: int

text \<open>The object the function returns; a field the object lacks is \<open>None\<close>.\<close>

record progress_result =
  success :: bool
  error :: "string option"
  inProgress :: bool
  isStale :: "bool option"
  lastSync :: "row option"
  progress :: "row option"

definition result :: "bool \<Rightarrow> string option \<Rightarrow> bool \<Rightarrow> progress_result" where
  "result s e p =
     \<lparr>success = s, error = e, inProgress = p, isStale = None, lastSync = None, progress = None\<rparr>"

text \<open>
  Line 91: \<^verbatim>\<open>(now.getTime() - updatedAt.getTime()) / (1000 * 60)\<close>. The source divides in
  double precision, the quotient here is exact. The comparison with 15 in line 93 has
  the same outcome: 900000 / 60000 is exactly 15, rounding is monotone, and the double
  nearest to 900001 / 60000 lies above 15.
\<close>

definition diffMinutes :: "int \<Rightarrow> int \<Rightarrow> real" where
  "diffMinutes now updatedAt = real_of_int (now - updatedAt) / (1000 * 60)"

text \<open>Lines 99 to 103: the patch that marks a row as failed.\<close>

definition mark_failed :: "int \<Rightarrow> row \<Rightarrow> row" where
  "mark_failed t r =
     r\<lparr>status := ''failed'', updated_at := t,
       notes := Some ''Sync timed out after 15 minutes of inactivity''\<rparr>"

text \<open>Lines 120 to 127: the \<^verbatim>\<open>catch\<close> block.\<close>

definition get_caught :: "string \<Rightarrow> progress_result" where
  "get_caught m = result False (Some (''Failed to get sync progress: '' @ m)) False"

definition getSyncProgress :: "get_env \<Rightarrow> string \<Rightarrow> db \<Rightarrow> progress_result \<times> db" where
  "getSyncProgress env storeId d =
     (case select_table_exists (get_tableCheck env) d of
        (Rejected m, d1) \<Rightarrow> (get_caught m, d1)
      | (Reply tableExists tableCheckError, d1) \<Rightarrow>
          if tableCheckError \<noteq> None then
            (result False (Some ''Could not check if sync_progress table exists'') False, d1)
          else if tableExists = None then (result True None False, d1)
          else
            (case select_latest (get_fetch env) storeId d1 of
               (Rejected m, d2) \<Rightarrow> (get_caught m, d2)
             | (Reply _ (Some m), d2) \<Rightarrow>
                 (result False (Some (''Failed to fetch sync progress: '' @ m)) False, d2)
             | (Reply None None, d2) \<Rightarrow> (result True None False, d2)
             | (Reply (Some data) None, d2) \<Rightarrow>
                 (let isInProgress = (status data = ''in_progress'') in
                  if isInProgress \<and> diffMinutes (get_clock env) (updated_at data) > 15 then
                    (case update_by_id (get_update env) (row_id data)
                            (mark_failed (get_clock_write env)) d2 of
                       (Rejected m, d3) \<Rightarrow> (get_caught m, d3)
                     | (Reply _ _, d3) \<Rightarrow>
                         ((result True None False)\<lparr>isStale := Some True, lastSync := Some data\<rparr>,
                          d3))
                  else ((result True None isInProgress)\<lparr>progress := Some data\<rparr>, d2))))"

subsection \<open>updateSyncProgress\<close>

text \<open>
  The faults of the four requests of one call and the two readings of the clock
  (\<^verbatim>\<open>new Date()\<close> in line 185, for \<open>updated_at\<close>, and in line 205, for \<open>started_at\<close>).
\<close>

record update_env =
  upd_tableCheck :: "fault option"
  upd_createTable :: "fault option"
  upd_fetch :: "fault option"
  upd_write :: "fault option"
  upd_now :: int
  upd_now_insert :: int

text \<open>\<^verbatim>\<open>notes || null\<close>: an absent or empty string becomes \<^verbatim>\<open>null\<close>.\<close>

definition notes_or_null :: "string option \<Rightarrow> string option" where
  "notes_or_null n = (case n of None \<Rightarrow> None | Some s \<Rightarrow> if s = [] then None else Some s)"

text \<open>Lines 180 to 187: \<^verbatim>\<open>progressData\<close>, as the fields it sets in a row.\<close>

definition progressData ::
  "string \<Rightarrow> string \<Rightarrow> int \<Rightarrow> int \<Rightarrow> int \<Rightarrow> string option \<Rightarrow> row \<Rightarrow> row" where
  "progressData storeId st current total' t n r =
     r\<lparr>store_id := storeId, status := st, orders_processed := current, total_orders := total',
       updated_at := t, notes := notes_or_null n\<rparr>"

text \<open>
  Lines 201 to 206: \<^verbatim>\<open>newProgressData\<close>. The payload has no id; the \<open>row_id\<close> written
  here is replaced by the one the database generates.
\<close>

definition newProgressData ::
  "string \<Rightarrow> string \<Rightarrow> int \<Rightarrow> int \<Rightarrow> int \<Rightarrow> string option \<Rightarrow> int \<Rightarrow> row" where
  "newProgressData storeId st current total' t n t_started =
     \<lparr>row_id = 0, store_id = storeId, status = st, orders_processed = current,
      total_orders = total', updated_at = t, notes = notes_or_null n,
      connection_id = ''PLACEHOLDER'', current_page = 1, started_at = t_started\<rparr>"

text \<open>Lines 139 to 165: true when the function goes on to line 167.\<close>

definition ensure_table :: "update_env \<Rightarrow> db \<Rightarrow> bool \<times> db" where
  "ensure_table env d =
     (case select_table_exists (upd_tableCheck env) d of
        (Rejected m, d1) \<Rightarrow> (False, d1)
      | (Reply tableExists tableCheckError, d1) \<Rightarrow>
          if tableCheckError \<noteq> None \<or> tableExists = None then
            (case rpc_create_sync_progress_table (upd_createTable env) d1 of
               (Rejected m, d2) \<Rightarrow> (False, d2)
             | (Reply _ createError, d2) \<Rightarrow> (createError = None, d2))
          else (True, d1))"

definition updateSyncProgress ::
  "update_env \<Rightarrow> string \<Rightarrow> string \<Rightarrow> int \<Rightarrow> int \<Rightarrow> string option \<Rightarrow> db \<Rightarrow> db" where
  "updateSyncProgress env storeId st current total' n d =
     (case ensure_table env d of
        (False, d1) \<Rightarrow> d1
      | (True, d1) \<Rightarrow>
          (case select_in_progress (upd_fetch env) storeId d1 of
             (Rejected m, d2) \<Rightarrow> d2
           | (Reply _ (Some m), d2) \<Rightarrow> d2
           | (Reply (Some existing) None, d2) \<Rightarrow>
               snd (update_by_id (upd_write env) existing
                      (progressData storeId st current total' (upd_now env) n) d2)
           | (Reply None None, d2) \<Rightarrow>
               snd (insert_row (upd_write env)
                      (newProgressData storeId st current total' (upd_now env) n
                         (upd_now_insert env)) d2)))"

section \<open>Vocabulary of the properties\<close>

text \<open>The rows of the table, none while the table does not exist.\<close>

definition rows_of :: "db \<Rightarrow> row list" where
  "rows_of d = (case sync_progress d of None \<Rightarrow> [] | Some rows \<Rightarrow> rows)"

text \<open>A row is active for a store when the query of line 168 to 173 selects it.\<close>

definition active :: "string \<Rightarrow> row \<Rightarrow> bool" where
  "active s r = (store_id r = s \<and> status r = ''in_progress'')"

text \<open>The primary key: no two rows have the same id.\<close>

definition unique_ids :: "row list \<Rightarrow> bool" where
  "unique_ids rows = distinct (map row_id rows)"

text \<open>Invariant I1 of the spec, for one store.\<close>

definition at_most_one_active :: "string \<Rightarrow> row list \<Rightarrow> bool" where
  "at_most_one_active s rows = (length (filter (active s) rows) \<le> 1)"

text \<open>
  Modelled from the spec: the job driver that calls the tracker is not part of the
  sources. Its \<open>start(storeId)\<close> is the call of \<^verbatim>\<open>updateSyncProgress\<close> with status
  \<^verbatim>\<open>in_progress\<close>, both counters 0 and no notes; \<open>report\<close> is the call with status
  \<^verbatim>\<open>in_progress\<close> and the counters reached, \<open>finish\<close> the call with status
  \<^verbatim>\<open>completed\<close> or \<^verbatim>\<open>failed\<close>. \<open>start_calls\<close> is a sequence of \<open>start\<close> calls on one
  store, each in its own environment.
\<close>

fun start_calls :: "update_env list \<Rightarrow> string \<Rightarrow> db \<Rightarrow> db" where
  "start_calls [] s d = d"
| "start_calls (env # envs) s d =
     start_calls envs s (updateSyncProgress env s ''in_progress'' 0 0 None d)"

text \<open>
  The requests of one call of \<^verbatim>\<open>updateSyncProgress\<close> on an existing table take the
  function to its write and the write succeeds: the table check succeeds, or is
  answered with an error and the provisioning call that follows succeeds; the lookup
  of the record in progress succeeds; the update or insert succeeds.
\<close>

definition requests_go_through :: "update_env \<Rightarrow> bool" where
  "requests_go_through env =
     ((case upd_tableCheck env of
         None \<Rightarrow> True
       | Some (ErrorReply m) \<Rightarrow> upd_createTable env = None
       | Some (Rejects m) \<Rightarrow> False)
      \<and> upd_fetch env = None \<and> upd_write env = None)"

subsection \<open>Concrete inputs\<close>

text \<open>A database whose table holds the given rows and that has received no request.\<close>

definition db_of :: "row list \<Rightarrow> db" where
  "db_of rows = \<lparr>sync_progress = Some rows, calls = []\<rparr>"

text \<open>A record of store-1 with the given status and time of last update.\<close>

definition example_row :: "string \<Rightarrow> int \<Rightarrow> row" where
  "example_row st t =
     \<lparr>row_id = 1, store_id = ''store-1'', status = st, orders_processed = 50,
      total_orders = 200, updated_at = t, notes = None, connection_id = ''PLACEHOLDER'',
      current_page = 1, started_at = 0\<rparr>"

text \<open>Environments in which no request fails, with the two clock readings.\<close>

definition get_ok :: "int \<Rightarrow> int \<Rightarrow> get_env" where
  "get_ok t t' =
     \<lparr>get_tableCheck = None, get_fetch = None, get_update = None, get_clock = t,
      get_clock_write = t'\<rparr>"

definition update_ok :: "int \<Rightarrow> int \<Rightarrow> update_env" where
  "update_ok t t' =
     \<lparr>upd_tableCheck = None, upd_createTable = None, upd_fetch = None, upd_write = None,
      upd_now = t, upd_now_insert = t'\<rparr>"

section \<open>Auxiliary facts\<close>

subsection \<open>The check of line 93\<close>

lemma diffMinutes_gt_15: "(diffMinutes now updatedAt > 15) = (now - updatedAt > 900000)"
proof -
  have "(diffMinutes now updatedAt > 15) = (real_of_int 900000 < real_of_int (now - updatedAt))"
    by (simp add: diffMinutes_def field_simps)
  also have "\<dots> = (900000 < now - updatedAt)"
    by (rule of_int_less_iff)
  finally show ?thesis .
qed

subsection \<open>What one call of updateSyncProgress does to the table\<close>

lemma db_request_calls: "calls (snd (db_request f c run d)) = calls d @ [c]"
  by (simp add: db_request_def Let_def split: option.splits fault.splits prod.splits)

lemma ensure_table_effect:
  "ensure_table env d = (b, d1) \<Longrightarrow>
     (b \<longrightarrow> sync_progress d1 = Some (rows_of d)) \<and> (\<not> b \<longrightarrow> sync_progress d1 = sync_progress d)"
  by (auto simp: ensure_table_def select_table_exists_def rpc_create_sync_progress_table_def
        db_request_def rows_of_def Let_def
      split: option.splits fault.splits prod.splits response.splits if_splits)

lemma updateSyncProgress_table:
  "sync_progress (updateSyncProgress env s st c t n d) = sync_progress d
   \<or> sync_progress (updateSyncProgress env s st c t n d) = Some (rows_of d)
   \<or> (\<exists>r. filter (active s) (rows_of d) = [r] \<and>
          sync_progress (updateSyncProgress env s st c t n d) =
            Some (map (\<lambda>x. if row_id x = row_id r then progressData s st c t (upd_now env) n x else x)
                    (rows_of d)))
   \<or> (filter (active s) (rows_of d) = [] \<and>
          sync_progress (updateSyncProgress env s st c t n d) =
            Some (rows_of d @ [(newProgressData s st c t (upd_now env) n (upd_now_insert env))
                                 \<lparr>row_id := fresh_id (rows_of d)\<rparr>]))"
proof (cases "ensure_table env d")
  case (Pair b d1)
  note et = ensure_table_effect [OF Pair]
  show ?thesis
  proof (cases b)
    case False
    with Pair et show ?thesis by (simp add: updateSyncProgress_def)
  next
    case True
    with et have t1: "sync_progress d1 = Some (rows_of d)" by simp
    have act: "(\<lambda>r. store_id r = s \<and> status r = ''in_progress'') = active s"
      by (simp add: active_def fun_eq_iff)
    from Pair True t1 show ?thesis
      by (auto simp: updateSyncProgress_def select_in_progress_def update_by_id_def
            insert_row_def db_request_def Let_def act
          split: option.splits fault.splits prod.splits response.splits list.splits)
  qed
qed

subsection \<open>Ids, filters and the latest row\<close>

lemma rows_of_Some [simp]: "sync_progress d = Some rows \<Longrightarrow> rows_of d = rows"
  by (simp add: rows_of_def)

lemma rows_of_same: "sync_progress d' = sync_progress d \<Longrightarrow> rows_of d' = rows_of d"
  by (simp add: rows_of_def)

lemma foldr_max_ge: "x \<in> set xs \<Longrightarrow> x \<le> foldr max xs (0::nat)"
  by (induction xs) auto

lemma fresh_id_fresh: "r \<in> set rows \<Longrightarrow> row_id r < fresh_id rows"
  using foldr_max_ge [of "row_id r" "map row_id rows"] by (simp add: fresh_id_def)

lemma unique_ids_insert: "unique_ids rows \<Longrightarrow> unique_ids (rows @ [p\<lparr>row_id := fresh_id rows\<rparr>])"
  using fresh_id_fresh by (fastforce simp: unique_ids_def)

lemma unique_ids_patch:
  assumes "\<And>x. row_id (patch x) = row_id x"
  shows "unique_ids (map (\<lambda>x. if row_id x = i then patch x else x) rows) = unique_ids rows"
proof -
  have "map row_id (map (\<lambda>x. if row_id x = i then patch x else x) rows) = map row_id rows"
    by (induction rows) (simp_all add: assms)
  then show ?thesis unfolding unique_ids_def by (rule arg_cong)
qed

lemma unique_ids_same_id:
  "unique_ids rows \<Longrightarrow> x \<in> set rows \<Longrightarrow> y \<in> set rows \<Longrightarrow> row_id x = row_id y \<Longrightarrow> x = y"
  by (metis unique_ids_def distinct_map inj_onD)

lemma filter_map_length_le:
  "(\<And>x. x \<in> set xs \<Longrightarrow> P (f x) \<Longrightarrow> Q x) \<Longrightarrow>
     length (filter P (map f xs)) \<le> length (filter Q xs)"
  by (induction xs) auto

lemma filter_singleton_mem: "filter P xs = [r] \<Longrightarrow> r \<in> set xs \<and> P r"
proof -
  assume "filter P xs = [r]"
  then have "r \<in> set (filter P xs)" by simp
  then show ?thesis by simp
qed

lemma latest_row_mem: "latest_row xs = Some r \<Longrightarrow> r \<in> set xs"
  by (induction xs arbitrary: r) (auto split: option.splits if_splits)

lemma latest_row_None: "(latest_row xs = None) = (xs = [])"
  by (cases xs) (auto split: option.splits)

subsection \<open>What one call of getSyncProgress does to the table\<close>

lemma getSyncProgress_table:
  "sync_progress (snd (getSyncProgress env s d)) = sync_progress d
   \<or> (\<exists>rows r. sync_progress d = Some rows
          \<and> latest_row (filter (\<lambda>x. store_id x = s) rows) = Some r
          \<and> status r = ''in_progress''
          \<and> sync_progress (snd (getSyncProgress env s d)) =
              Some (map (\<lambda>x. if row_id x = row_id r then mark_failed (get_clock_write env) x else x)
                      rows))"
  by (auto simp: getSyncProgress_def select_table_exists_def select_latest_def update_by_id_def
        db_request_def Let_def
      split: option.splits fault.splits prod.splits response.splits)

subsection \<open>Preservation of the invariants\<close>

lemma row_id_progressData [simp]: "row_id (progressData s st c t u n x) = row_id x"
  by (simp add: progressData_def)

lemma row_id_mark_failed [simp]: "row_id (mark_failed t x) = row_id x"
  by (simp add: mark_failed_def)

lemma updateSyncProgress_rows:
  obtains (same) "rows_of (updateSyncProgress env s st c t n d) = rows_of d"
    | (upd) r where "filter (active s) (rows_of d) = [r]"
        "rows_of (updateSyncProgress env s st c t n d) =
           map (\<lambda>x. if row_id x = row_id r
                     then progressData s st c t (upd_now env) n x else x) (rows_of d)"
    | (ins) "filter (active s) (rows_of d) = []"
        "rows_of (updateSyncProgress env s st c t n d) =
           rows_of d @ [(newProgressData s st c t (upd_now env) n (upd_now_insert env))
                           \<lparr>row_id := fresh_id (rows_of d)\<rparr>]"
proof -
  let ?d' = "updateSyncProgress env s st c t n d"
  from updateSyncProgress_table [of env s st c t n d]
  consider "sync_progress ?d' = sync_progress d" | "sync_progress ?d' = Some (rows_of d)"
    | r where "filter (active s) (rows_of d) = [r]"
        "sync_progress ?d' =
            Some (map (\<lambda>x. if row_id x = row_id r then progressData s st c t (upd_now env) n x else x)
                    (rows_of d))"
    | "filter (active s) (rows_of d) = []"
        "sync_progress ?d' =
            Some (rows_of d @ [(newProgressData s st c t (upd_now env) n (upd_now_insert env))
                                 \<lparr>row_id := fresh_id (rows_of d)\<rparr>])"
    by blast
  then show thesis
  proof cases
    case 1 then show thesis using same by (simp add: rows_of_def)
  next
    case 2 then show thesis using same by simp
  next
    case 3 then show thesis using upd by simp
  next
    case 4 then show thesis using ins by simp
  qed
qed

lemma updateSyncProgress_unique_ids:
  assumes "unique_ids (rows_of d)"
  shows "unique_ids (rows_of (updateSyncProgress env s st c t n d))"
proof (cases rule: updateSyncProgress_rows [of env s st c t n d])
  case same with assms show ?thesis by simp
next
  case (upd r) with assms show ?thesis by (simp add: unique_ids_patch)
next
  case ins with assms show ?thesis by (simp add: unique_ids_insert)
qed

lemma getSyncProgress_rows:
  obtains (same) "rows_of (snd (getSyncProgress env s d)) = rows_of d"
    | (stale) r where "latest_row (filter (\<lambda>x. store_id x = s) (rows_of d)) = Some r"
        "status r = ''in_progress''"
        "rows_of (snd (getSyncProgress env s d)) =
           map (\<lambda>x. if row_id x = row_id r then mark_failed (get_clock_write env) x else x)
             (rows_of d)"
proof -
  from getSyncProgress_table [of env s d]
  consider "sync_progress (snd (getSyncProgress env s d)) = sync_progress d"
    | rows r where "sync_progress d = Some rows"
        "latest_row (filter (\<lambda>x. store_id x = s) rows) = Some r" "status r = ''in_progress''"
        "sync_progress (snd (getSyncProgress env s d)) =
           Some (map (\<lambda>x. if row_id x = row_id r then mark_failed (get_clock_write env) x else x)
                   rows)"
    by blast
  then show thesis
  proof cases
    case 1 then show thesis using same by (simp add: rows_of_def)
  next
    case 2 then show thesis using stale by simp
  qed
qed

lemma getSyncProgress_unique_ids:
  assumes "unique_ids (rows_of d)"
  shows "unique_ids (rows_of (snd (getSyncProgress env s d)))"
proof (cases rule: getSyncProgress_rows [of env s d])
  case same with assms show ?thesis by simp
next
  case (stale r) with assms show ?thesis by (simp add: unique_ids_patch)
qed

lemma updateSyncProgress_at_most_one:
  assumes u: "unique_ids (rows_of d)" and a: "at_most_one_active s' (rows_of d)"
  shows "at_most_one_active s' (rows_of (updateSyncProgress env s st c t n d))"
proof (cases rule: updateSyncProgress_rows [of env s st c t n d])
  case same
  with a show ?thesis by simp
next
  case (upd r)
  from upd(1) have r: "r \<in> set (rows_of d)" "active s r"
    using filter_singleton_mem [of "active s" "rows_of d" r] by simp_all
  have "length (filter (active s') (rows_of (updateSyncProgress env s st c t n d)))
          \<le> length (filter (active s') (rows_of d))"
    unfolding upd(2)
  proof (rule filter_map_length_le)
    fix x assume x: "x \<in> set (rows_of d)"
      and p: "active s' (if row_id x = row_id r
                         then progressData s st c t (upd_now env) n x else x)"
    show "active s' x"
    proof (cases "row_id x = row_id r")
      case True
      with u x r have "x = r" by (simp add: unique_ids_same_id)
      moreover from p True have "s' = s" by (simp add: active_def progressData_def)
      ultimately show ?thesis using r by simp
    next
      case False
      with p show ?thesis by simp
    qed
  qed
  with a show ?thesis by (simp add: at_most_one_active_def)
next
  case ins
  show ?thesis
  proof (cases "s' = s")
    case True
    with ins show ?thesis by (simp add: at_most_one_active_def)
  next
    case False
    then have "\<not> active s' ((newProgressData s st c t (upd_now env) n (upd_now_insert env))
                                \<lparr>row_id := fresh_id (rows_of d)\<rparr>)"
      by (simp add: active_def newProgressData_def)
    with ins a show ?thesis by (simp add: at_most_one_active_def)
  qed
qed

lemma getSyncProgress_at_most_one:
  assumes a: "at_most_one_active s' (rows_of d)"
  shows "at_most_one_active s' (rows_of (snd (getSyncProgress env s d)))"
proof (cases rule: getSyncProgress_rows [of env s d])
  case same
  with a show ?thesis by simp
next
  case (stale r)
  have "length (filter (active s') (rows_of (snd (getSyncProgress env s d))))
          \<le> length (filter (active s') (rows_of d))"
    unfolding stale(3)
    by (rule filter_map_length_le) (simp add: active_def mark_failed_def split: if_splits)
  with a show ?thesis by (simp add: at_most_one_active_def)
qed

lemma start_calls_invariant:
  "unique_ids (rows_of d) \<Longrightarrow> at_most_one_active s' (rows_of d) \<Longrightarrow>
     unique_ids (rows_of (start_calls envs s d))
     \<and> at_most_one_active s' (rows_of (start_calls envs s d))"
  by (induction envs arbitrary: d)
     (simp_all add: updateSyncProgress_unique_ids updateSyncProgress_at_most_one)

subsection \<open>The result of a successful read\<close>

lemma db_same_table:
  "sync_progress d = t \<Longrightarrow> d\<lparr>calls := c, sync_progress := t\<rparr> = d\<lparr>calls := c\<rparr>"
  by (cases d) simp

lemma getSyncProgress_found:
  assumes "sync_progress d = Some rows" "get_tableCheck env = None" "get_fetch env = None"
    and "latest_row (filter (\<lambda>x. store_id x = s) rows) = Some r"
  shows "getSyncProgress env s d =
     (let d2 = d\<lparr>calls := calls d @ [CheckTable, SelectLatest s]\<rparr> in
      if status r = ''in_progress'' \<and> 900000 < get_clock env - updated_at r then
        (case update_by_id (get_update env) (row_id r) (mark_failed (get_clock_write env)) d2 of
           (Rejected m, d3) \<Rightarrow> (get_caught m, d3)
         | (Reply x y, d3) \<Rightarrow>
             ((result True None False)\<lparr>isStale := Some True, lastSync := Some r\<rparr>, d3))
      else ((result True None (status r = ''in_progress''))\<lparr>progress := Some r\<rparr>, d2))"
  using assms
  by (simp add: getSyncProgress_def select_table_exists_def select_latest_def db_request_def
        Let_def diffMinutes_gt_15 db_same_table)

lemma getSyncProgress_update_rejected:
  assumes "sync_progress d = Some rows"
    and "get_tableCheck env = None" and "get_fetch env = None"
    and "latest_row (filter (\<lambda>x. store_id x = s) rows) = Some r"
    and "status r = ''in_progress''"
    and "900000 < get_clock env - updated_at r"
    and "get_update env = Some (Rejects m)"
  shows "fst (getSyncProgress env s d) = get_caught m
     \<and> sync_progress (snd (getSyncProgress env s d)) = Some rows"
  using assms
  by (simp add: getSyncProgress_found update_by_id_def db_request_def Let_def)

subsection \<open>A call whose requests all succeed\<close>

lemma updateSyncProgress_insert:
  assumes "sync_progress d = Some rows"
    and "upd_tableCheck env = None" and "upd_fetch env = None" and "upd_write env = None"
    and "filter (active s) rows = []"
  shows "updateSyncProgress env s st c t n d =
     \<lparr>sync_progress = Some (rows @
         [\<lparr>row_id = fresh_id rows, store_id = s, status = st, orders_processed = c,
           total_orders = t, updated_at = upd_now env, notes = notes_or_null n,
           connection_id = ''PLACEHOLDER'', current_page = 1,
           started_at = upd_now_insert env\<rparr>]),
      calls = calls d @ [CheckTable, SelectInProgress s, InsertRow]\<rparr>"
proof -
  have act: "(\<lambda>r. store_id r = s \<and> status r = ''in_progress'') = active s"
    by (simp add: active_def fun_eq_iff)
  from assms show ?thesis
    by (simp add: updateSyncProgress_def ensure_table_def select_table_exists_def
          select_in_progress_def insert_row_def db_request_def newProgressData_def act)
qed

lemma updateSyncProgress_update:
  assumes "sync_progress d = Some rows"
    and "upd_tableCheck env = None" and "upd_fetch env = None" and "upd_write env = None"
    and "filter (active s) rows = [r]"
  shows "updateSyncProgress env s st c t n d =
     \<lparr>sync_progress = Some (map (\<lambda>x. if row_id x = row_id r
         then x\<lparr>store_id := s, status := st, orders_processed := c, total_orders := t,
                updated_at := upd_now env, notes := notes_or_null n\<rparr> else x) rows),
      calls = calls d @ [CheckTable, SelectInProgress s, UpdateRow (row_id r)]\<rparr>"
proof -
  have act: "(\<lambda>r. store_id r = s \<and> status r = ''in_progress'') = active s"
    by (simp add: active_def fun_eq_iff)
  from assms show ?thesis
    by (simp add: updateSyncProgress_def ensure_table_def select_table_exists_def
          select_in_progress_def update_by_id_def db_request_def progressData_def act)
qed

lemma updateSyncProgress_existing:
  assumes "sync_progress d = Some rows" and "filter (active s) rows = [r]"
  shows "rows_of (updateSyncProgress env s st c t n d) =
     (if requests_go_through env
      then map (\<lambda>x. if row_id x = row_id r then progressData s st c t (upd_now env) n x else x) rows
      else rows)"
proof -
  have act: "(\<lambda>r. store_id r = s \<and> status r = ''in_progress'') = active s"
    by (simp add: active_def fun_eq_iff)
  from assms show ?thesis
    by (auto simp: updateSyncProgress_def ensure_table_def select_table_exists_def
          rpc_create_sync_progress_table_def select_in_progress_def update_by_id_def
          db_request_def requests_go_through_def rows_of_def Let_def act
        split: option.splits fault.splits)
qed

lemma patch_keeps_other_rows:
  "r \<in> set rows \<Longrightarrow> row_id r \<noteq> i \<Longrightarrow>
     r \<in> set (map (\<lambda>x. if row_id x = i then patch x else x) rows)"
  by (induction rows) auto

lemma mutation_keeps_started_at:
  "started_at (progressData s st c t u n x) = started_at x
   \<and> updated_at (progressData s st c t u n x) = u
   \<and> started_at (mark_failed u x) = started_at x
   \<and> updated_at (mark_failed u x) = u"
  by (simp add: progressData_def mark_failed_def)

text \<open>The definitions that evaluate a call on a concrete database.\<close>

lemmas eval_defs =
  updateSyncProgress_def ensure_table_def select_table_exists_def
  rpc_create_sync_progress_table_def select_in_progress_def update_by_id_def insert_row_def
  db_request_def newProgressData_def progressData_def notes_or_null_def fresh_id_def
  db_of_def example_row_def update_ok_def rows_of_def

section \<open>The read path: getSyncProgress\<close>

text \<open>
  C1 (self-healing read), as amended. Let the table check and the fetch succeed and let
  the most recently updated record of the store, the one the function fetches, be \<open>r\<close>,
  with status \<^verbatim>\<open>in_progress\<close> and last updated more than 900 seconds before the clock
  reading of line 90. When the update of lines 97 to 104 succeeds, the call reports
  success, \<open>inProgress = false\<close> and \<open>isStale = true\<close>, and every row with the id of
  \<open>r\<close> becomes \<open>r\<close> with status \<^verbatim>\<open>failed\<close>, the notes "Sync timed out after 15 minutes
  of inactivity" and the time of the write; all other rows stay as they are.
\<close>

theorem self_healing_read:
  assumes "sync_progress d = Some rows"
    and "get_tableCheck env = None" and "get_fetch env = None" and "get_update env = None"
    and "latest_row (filter (\<lambda>x. store_id x = s) rows) = Some r"
    and "status r = ''in_progress''"
    and "900000 < get_clock env - updated_at r"
  shows "success (fst (getSyncProgress env s d)) = True
     \<and> inProgress (fst (getSyncProgress env s d)) = False
     \<and> isStale (fst (getSyncProgress env s d)) = Some True
     \<and> sync_progress (snd (getSyncProgress env s d)) =
         Some (map (\<lambda>x. if row_id x = row_id r
                         then x\<lparr>status := ''failed'', updated_at := get_clock_write env,
                                notes := Some ''Sync timed out after 15 minutes of inactivity''\<rparr>
                         else x) rows)
     \<and> r\<lparr>status := ''failed'', updated_at := get_clock_write env,
          notes := Some ''Sync timed out after 15 minutes of inactivity''\<rparr>
         \<in> set (rows_of (snd (getSyncProgress env s d)))"
proof -
  from assms(5) have "r \<in> set rows"
    using latest_row_mem [of "filter (\<lambda>x. store_id x = s) rows" r] by simp
  then have "mark_failed (get_clock_write env) r
      \<in> set (map (\<lambda>x. if row_id x = row_id r then mark_failed (get_clock_write env) x else x) rows)"
    by (simp add: image_iff) (rule bexI [of _ r], simp_all)
  with assms show ?thesis
    by (simp add: getSyncProgress_found update_by_id_def db_request_def result_def rows_of_def
          mark_failed_def)
qed

text \<open>
  A table with a record of another store, an older completed record of store-1 and the
  record of store-1 in progress, last updated at 200000 and read at 1200000.
\<close>

theorem self_healing_read_witness:
  "latest_row (filter (\<lambda>x. store_id x = ''store-1'')
       [(example_row ''in_progress'' 0)\<lparr>row_id := 3, store_id := ''store-2''\<rparr>,
        (example_row ''completed'' 100)\<lparr>row_id := 2\<rparr>,
        example_row ''in_progress'' 200000])
     = Some (example_row ''in_progress'' 200000)
   \<and> 900000 < get_clock (get_ok 1200000 1200001) - updated_at (example_row ''in_progress'' 200000)
   \<and> inProgress (fst (getSyncProgress (get_ok 1200000 1200001) ''store-1''
         (db_of [(example_row ''in_progress'' 0)\<lparr>row_id := 3, store_id := ''store-2''\<rparr>,
                 (example_row ''completed'' 100)\<lparr>row_id := 2\<rparr>,
                 example_row ''in_progress'' 200000]))) = False
   \<and> isStale (fst (getSyncProgress (get_ok 1200000 1200001) ''store-1''
         (db_of [(example_row ''in_progress'' 0)\<lparr>row_id := 3, store_id := ''store-2''\<rparr>,
                 (example_row ''completed'' 100)\<lparr>row_id := 2\<rparr>,
                 example_row ''in_progress'' 200000]))) = Some True
   \<and> sync_progress (snd (getSyncProgress (get_ok 1200000 1200001) ''store-1''
         (db_of [(example_row ''in_progress'' 0)\<lparr>row_id := 3, store_id := ''store-2''\<rparr>,
                 (example_row ''completed'' 100)\<lparr>row_id := 2\<rparr>,
                 example_row ''in_progress'' 200000]))) =
       Some [(example_row ''in_progress'' 0)\<lparr>row_id := 3, store_id := ''store-2''\<rparr>,
             (example_row ''completed'' 100)\<lparr>row_id := 2\<rparr>,
             (example_row ''failed'' 1200001)
               \<lparr>notes := Some ''Sync timed out after 15 minutes of inactivity''\<rparr>]"
  using self_healing_read
    [of "db_of [(example_row ''in_progress'' 0)\<lparr>row_id := 3, store_id := ''store-2''\<rparr>,
                (example_row ''completed'' 100)\<lparr>row_id := 2\<rparr>,
                example_row ''in_progress'' 200000]"
      "[(example_row ''in_progress'' 0)\<lparr>row_id := 3, store_id := ''store-2''\<rparr>,
        (example_row ''completed'' 100)\<lparr>row_id := 2\<rparr>,
        example_row ''in_progress'' 200000]"
      "get_ok 1200000 1200001" "''store-1''" "example_row ''in_progress'' 200000"]
  by (simp add: db_of_def example_row_def get_ok_def)

text \<open>
  The claim as stated fails. A stale record in progress that is not the most recently
  updated record of its store is not looked at: with a completed record updated later,
  the call reports the completed record, sets no stale flag and leaves the table as it
  is. And when the update is answered with an error, the stale record stays in
  progress.
\<close>

theorem self_healing_read_counterexample:
  "getSyncProgress (get_ok 3000000 3000001) ''store-1''
       (db_of [example_row ''in_progress'' 0,
               (example_row ''completed'' 2000000)\<lparr>row_id := 2\<rparr>]) =
     (\<lparr>success = True, error = None, inProgress = False, isStale = None, lastSync = None,
       progress = Some ((example_row ''completed'' 2000000)\<lparr>row_id := 2\<rparr>)\<rparr>,
      \<lparr>sync_progress = Some [example_row ''in_progress'' 0,
                              (example_row ''completed'' 2000000)\<lparr>row_id := 2\<rparr>],
       calls = [CheckTable, SelectLatest ''store-1'']\<rparr>)
   \<and> sync_progress (snd (getSyncProgress
         ((get_ok 1200000 1200001)\<lparr>get_update := Some (ErrorReply ''write failed'')\<rparr>)
         ''store-1'' (db_of [example_row ''in_progress'' 0])))
     = Some [example_row ''in_progress'' 0]"
  by (simp add: getSyncProgress_def select_table_exists_def select_latest_def update_by_id_def
        db_request_def result_def db_of_def example_row_def get_ok_def diffMinutes_gt_15)

text \<open>
  C5 (staleness boundary). The check of lines 91 and 93 holds exactly when the time
  since the last update exceeds 900000 ms: it fails at 900000 ms and holds at
  900001 ms. It is what decides the answer of \<^verbatim>\<open>getSyncProgress\<close>: when the reads
  succeed and the most recent record of the store is in progress, the call reports
  \<open>inProgress\<close> exactly when that time does not exceed 900000 ms.
\<close>

theorem staleness_boundary:
  "(diffMinutes now updatedAt > 15) = (now - updatedAt > 900000)
   \<and> \<not> diffMinutes (updatedAt + 900000) updatedAt > 15
   \<and> diffMinutes (updatedAt + 900001) updatedAt > 15
   \<and> (sync_progress d = Some rows \<and> get_tableCheck env = None \<and> get_fetch env = None
        \<and> latest_row (filter (\<lambda>x. store_id x = s) rows) = Some r
        \<and> status r = ''in_progress''
      \<longrightarrow> inProgress (fst (getSyncProgress env s d))
            = (\<not> get_clock env - updated_at r > 900000))"
proof -
  have "inProgress (fst (getSyncProgress env s d)) = (\<not> get_clock env - updated_at r > 900000)"
    if "sync_progress d = Some rows" "get_tableCheck env = None" "get_fetch env = None"
      "latest_row (filter (\<lambda>x. store_id x = s) rows) = Some r" "status r = ''in_progress''"
    using that
    by (auto simp: getSyncProgress_found result_def get_caught_def Let_def
          split: prod.splits response.splits)
  then show ?thesis by (simp add: diffMinutes_gt_15)
qed

text \<open>At exactly 900 seconds the record is still in progress, one millisecond later not.\<close>

theorem staleness_boundary_witness:
  "inProgress (fst (getSyncProgress (get_ok 900000 900000) ''store-1''
       (db_of [example_row ''in_progress'' 0]))) = True
   \<and> inProgress (fst (getSyncProgress (get_ok 900001 900001) ''store-1''
       (db_of [example_row ''in_progress'' 0]))) = False"
  using staleness_boundary [of 900000 0 "db_of [example_row ''in_progress'' 0]"
      "[example_row ''in_progress'' 0]" "get_ok 900000 900000" "''store-1''"
      "example_row ''in_progress'' 0"]
    staleness_boundary [of 900001 0 "db_of [example_row ''in_progress'' 0]"
      "[example_row ''in_progress'' 0]" "get_ok 900001 900001" "''store-1''"
      "example_row ''in_progress'' 0"]
  by (simp add: db_of_def example_row_def get_ok_def)

text \<open>
  C7 (error surfacing). When the table check fails, or the table exists and the fetch
  of the latest record fails (by an error in the reply or by a rejected promise), the
  result has \<open>success = false\<close> and \<open>inProgress = false\<close>. When the store has no record
  at all, the result has \<open>inProgress = false\<close>, whatever the requests do.
\<close>

theorem getSyncProgress_error_surfacing:
  "(get_tableCheck env \<noteq> None
      \<longrightarrow> success (fst (getSyncProgress env s d)) = False
          \<and> inProgress (fst (getSyncProgress env s d)) = False)
   \<and> (get_tableCheck env = None \<and> sync_progress d \<noteq> None \<and> get_fetch env \<noteq> None
      \<longrightarrow> success (fst (getSyncProgress env s d)) = False
          \<and> inProgress (fst (getSyncProgress env s d)) = False)
   \<and> (filter (\<lambda>x. store_id x = s) (rows_of d) = []
      \<longrightarrow> inProgress (fst (getSyncProgress env s d)) = False)"
proof (intro conjI impI)
  assume "get_tableCheck env \<noteq> None"
  then show "success (fst (getSyncProgress env s d)) = False"
    and "inProgress (fst (getSyncProgress env s d)) = False"
    by (auto simp: getSyncProgress_def select_table_exists_def db_request_def result_def
          get_caught_def Let_def split: fault.splits)
next
  assume a: "get_tableCheck env = None \<and> sync_progress d \<noteq> None \<and> get_fetch env \<noteq> None"
  then show "success (fst (getSyncProgress env s d)) = False"
    and "inProgress (fst (getSyncProgress env s d)) = False"
    by (auto simp: getSyncProgress_def select_table_exists_def select_latest_def db_request_def
          result_def get_caught_def Let_def split: fault.splits)
next
  assume "filter (\<lambda>x. store_id x = s) (rows_of d) = []"
  then show "inProgress (fst (getSyncProgress env s d)) = False"
    by (auto simp: getSyncProgress_def select_table_exists_def select_latest_def db_request_def
          result_def get_caught_def Let_def rows_of_def no_table_def
        split: option.splits fault.splits)
qed

text \<open>
  A table check answered with an error, a fetch whose promise rejects, and a store
  without records.
\<close>

theorem getSyncProgress_error_surfacing_witness:
  "success (fst (getSyncProgress
       ((get_ok 0 0)\<lparr>get_tableCheck := Some (ErrorReply ''connection refused'')\<rparr>)
       ''store-1'' (db_of [example_row ''in_progress'' 0]))) = False
   \<and> success (fst (getSyncProgress
       ((get_ok 0 0)\<lparr>get_fetch := Some (Rejects ''fetch failed'')\<rparr>)
       ''store-1'' (db_of [example_row ''in_progress'' 0]))) = False
   \<and> filter (\<lambda>x. store_id x = ''store-2'') (rows_of (db_of [example_row ''in_progress'' 0])) = []
   \<and> inProgress (fst (getSyncProgress (get_ok 0 0) ''store-2''
       (db_of [example_row ''in_progress'' 0]))) = False"
  using getSyncProgress_error_surfacing
      [of "(get_ok 0 0)\<lparr>get_tableCheck := Some (ErrorReply ''connection refused'')\<rparr>"
        "''store-1''" "db_of [example_row ''in_progress'' 0]"]
    getSyncProgress_error_surfacing
      [of "(get_ok 0 0)\<lparr>get_fetch := Some (Rejects ''fetch failed'')\<rparr>"
        "''store-1''" "db_of [example_row ''in_progress'' 0]"]
    getSyncProgress_error_surfacing
      [of "get_ok 0 0" "''store-2''" "db_of [example_row ''in_progress'' 0]"]
  by (simp add: db_of_def example_row_def get_ok_def rows_of_def)

text \<open>
  C10 (the result of a stale reconciliation ignores the write). When the reads succeed
  and the most recent record \<open>r\<close> of the store is in progress and stale, the call
  returns \<open>success = true\<close>, \<open>inProgress = false\<close>, \<open>isStale = true\<close> and, as
  \<open>lastSync\<close>, the record \<open>r\<close> as it was read (its status still \<^verbatim>\<open>in_progress\<close>),
  whatever the update of lines 97 to 104 answers: the reply is discarded. When the
  reply carries an error the table is as before, so the record stays in progress while
  the result reports the reconciliation.
\<close>

theorem stale_result_ignores_write:
  assumes "sync_progress d = Some rows"
    and "get_tableCheck env = None" and "get_fetch env = None"
    and "latest_row (filter (\<lambda>x. store_id x = s) rows) = Some r"
    and "status r = ''in_progress''"
    and "900000 < get_clock env - updated_at r"
    and "get_update env = None \<or> get_update env = Some (ErrorReply m)"
  shows "fst (getSyncProgress env s d) =
       \<lparr>success = True, error = None, inProgress = False, isStale = Some True,
        lastSync = Some r, progress = None\<rparr>
     \<and> (get_update env = Some (ErrorReply m)
        \<longrightarrow> sync_progress (snd (getSyncProgress env s d)) = Some rows)"
  using assms
  by (auto simp: getSyncProgress_found update_by_id_def db_request_def result_def Let_def)


text \<open>The same stale record, once with a failing and once with a successful write.\<close>

theorem stale_result_ignores_write_witness:
  "getSyncProgress ((get_ok 1200000 1200001)\<lparr>get_update := Some (ErrorReply ''write failed'')\<rparr>)
       ''store-1'' (db_of [example_row ''in_progress'' 0]) =
     (\<lparr>success = True, error = None, inProgress = False, isStale = Some True,
       lastSync = Some (example_row ''in_progress'' 0), progress = None\<rparr>,
      \<lparr>sync_progress = Some [example_row ''in_progress'' 0],
       calls = [CheckTable, SelectLatest ''store-1'', UpdateRow 1]\<rparr>)
   \<and> fst (getSyncProgress (get_ok 1200000 1200001) ''store-1''
       (db_of [example_row ''in_progress'' 0])) =
     \<lparr>success = True, error = None, inProgress = False, isStale = Some True,
      lastSync = Some (example_row ''in_progress'' 0), progress = None\<rparr>"
proof -
  let ?e = "(get_ok 1200000 1200001)\<lparr>get_update := Some (ErrorReply ''write failed'')\<rparr>"
  let ?d = "db_of [example_row ''in_progress'' 0]"
  have c: "calls (snd (getSyncProgress ?e ''store-1'' ?d))
      = [CheckTable, SelectLatest ''store-1'', UpdateRow 1]"
    by (simp add: getSyncProgress_def select_table_exists_def select_latest_def update_by_id_def
          db_request_def db_of_def example_row_def get_ok_def diffMinutes_gt_15)
  have h: "sync_progress ?d = Some [example_row ''in_progress'' 0]"
    "get_tableCheck ?e = None" "get_fetch ?e = None"
    "latest_row (filter (\<lambda>x. store_id x = ''store-1'') [example_row ''in_progress'' 0])
       = Some (example_row ''in_progress'' 0)"
    "status (example_row ''in_progress'' 0) = ''in_progress''"
    "900000 < get_clock ?e - updated_at (example_row ''in_progress'' 0)"
    by (simp_all add: db_of_def example_row_def get_ok_def)
  have 1: "fst (getSyncProgress ?e ''store-1'' ?d) =
       \<lparr>success = True, error = None, inProgress = False, isStale = Some True,
        lastSync = Some (example_row ''in_progress'' 0), progress = None\<rparr>
     \<and> sync_progress (snd (getSyncProgress ?e ''store-1'' ?d))
        = Some [example_row ''in_progress'' 0]"
    using stale_result_ignores_write [of ?d "[example_row ''in_progress'' 0]" ?e "''store-1''"
        "example_row ''in_progress'' 0" "''write failed''"] h
    by simp
  have 2: "fst (getSyncProgress (get_ok 1200000 1200001) ''store-1'' ?d) =
       \<lparr>success = True, error = None, inProgress = False, isStale = Some True,
        lastSync = Some (example_row ''in_progress'' 0), progress = None\<rparr>"
    using stale_result_ignores_write [of ?d "[example_row ''in_progress'' 0]"
        "get_ok 1200000 1200001" "''store-1''" "example_row ''in_progress'' 0" "''write failed''"]
    by (simp add: db_of_def example_row_def get_ok_def)
  from 1 c have "getSyncProgress ?e ''store-1'' ?d =
     (\<lparr>success = True, error = None, inProgress = False, isStale = Some True,
       lastSync = Some (example_row ''in_progress'' 0), progress = None\<rparr>,
      \<lparr>sync_progress = Some [example_row ''in_progress'' 0],
       calls = [CheckTable, SelectLatest ''store-1'', UpdateRow 1]\<rparr>)"
    by (cases "getSyncProgress ?e ''store-1'' ?d") (auto intro: db.equality)
  with 2 show ?thesis by simp
qed


section \<open>The write path: updateSyncProgress\<close>

text \<open>
  C6 (what a start call creates). On a table without records, with every request
  succeeding, the start call for store-1 inserts exactly one record with both counters
  0 and status \<^verbatim>\<open>in_progress\<close>. Its \<open>updated_at\<close> is the reading of the clock in
  line 185 and its \<open>started_at\<close> the later reading in line 205: when the clock moves
  from 1000 to 1001 between the two lines, the two timestamps of the new record
  differ.
\<close>

theorem start_reads_clock_twice:
  "rows_of (updateSyncProgress (update_ok 1000 1001) ''store-1'' ''in_progress'' 0 0 None
       (db_of [])) =
     [\<lparr>row_id = 1, store_id = ''store-1'', status = ''in_progress'', orders_processed = 0,
       total_orders = 0, updated_at = 1000, notes = None, connection_id = ''PLACEHOLDER'',
       current_page = 1, started_at = 1001\<rparr>]"
  by (simp add: eval_defs)

text \<open>
  C9 (order of the timestamps). The record that the same kind of call inserts for
  store-2 has \<open>updated_at = 1000\<close> and \<open>started_at = 1001\<close>: \<open>updated_at\<close> is less than
  \<open>started_at\<close>. (An update of an existing record and the marking as failed keep
  \<open>started_at\<close> and set \<open>updated_at\<close> to the clock: \<open>mutation_keeps_started_at\<close>.)
\<close>

theorem inserted_record_started_after_update:
  "\<exists>r \<in> set (rows_of (updateSyncProgress (update_ok 1000 1001) ''store-2'' ''in_progress'' 0 0
       None (db_of [example_row ''completed'' 0]))). updated_at r < started_at r"
  by (simp add: eval_defs)

text \<open>
  C3 (at most one active record), as amended. From a table with unique ids in which a
  store has at most one record in progress, every sequence of start calls, whatever
  its requests do, leads to a table with unique ids in which that store has at most one
  record in progress. A start call made while the store has a record \<open>r\<close> in progress
  inserts nothing. When its requests go through (\<open>requests_go_through\<close>) it rewrites
  \<open>r\<close> in place, setting status \<^verbatim>\<open>in_progress\<close>, both counters 0, no notes and
  \<open>updated_at\<close> to the time of the call, and keeping the other fields; otherwise it
  leaves the table as it is. The function returns no value.
\<close>

theorem at_most_one_active_start:
  assumes "unique_ids (rows_of d)" and "at_most_one_active s' (rows_of d)"
  shows "at_most_one_active s' (rows_of (start_calls envs s d))
     \<and> unique_ids (rows_of (start_calls envs s d))
     \<and> (\<forall>r. filter (active s) (rows_of d) = [r] \<longrightarrow>
          rows_of (updateSyncProgress env s ''in_progress'' 0 0 None d) =
            (if requests_go_through env
             then map (\<lambda>x. if row_id x = row_id r
                            then x\<lparr>store_id := s, status := ''in_progress'',
                                   orders_processed := 0, total_orders := 0,
                                   updated_at := upd_now env, notes := None\<rparr>
                            else x) (rows_of d)
             else rows_of d))"
proof (intro conjI allI impI)
  fix r assume r: "filter (active s) (rows_of d) = [r]"
  then obtain rows where rows: "sync_progress d = Some rows"
    by (cases "sync_progress d") (simp_all add: rows_of_def)
  with r have "filter (active s) rows = [r]" by simp
  from updateSyncProgress_existing [OF rows this, of env "''in_progress''" 0 0 None] rows
  show "rows_of (updateSyncProgress env s ''in_progress'' 0 0 None d) =
            (if requests_go_through env
             then map (\<lambda>x. if row_id x = row_id r
                            then x\<lparr>store_id := s, status := ''in_progress'',
                                   orders_processed := 0, total_orders := 0,
                                   updated_at := upd_now env, notes := None\<rparr>
                            else x) (rows_of d)
             else rows_of d)"
    by (simp add: progressData_def notes_or_null_def)
qed (use start_calls_invariant [OF assms, of envs s] in simp_all)

text \<open>
  Two start calls on an empty table; and a start call on a record in progress, once
  with every request succeeding, once with the table check answered with an error
  and a successful provisioning call, once with a failing write.
\<close>

theorem at_most_one_active_start_witness:
  "at_most_one_active ''store-1''
     (rows_of (start_calls [update_ok 1000 1000, update_ok 2000 2000] ''store-1'' (db_of [])))
   \<and> filter (active ''store-1'') (rows_of (db_of [example_row ''in_progress'' 0]))
       = [example_row ''in_progress'' 0]
   \<and> rows_of (updateSyncProgress (update_ok 2000 2000) ''store-1'' ''in_progress'' 0 0
         None (db_of [example_row ''in_progress'' 0]))
       = [(example_row ''in_progress'' 2000)\<lparr>orders_processed := 0, total_orders := 0\<rparr>]
   \<and> rows_of (updateSyncProgress
         ((update_ok 2000 2000)\<lparr>upd_tableCheck := Some (ErrorReply ''permission denied'')\<rparr>)
         ''store-1'' ''in_progress'' 0 0 None (db_of [example_row ''in_progress'' 0]))
       = [(example_row ''in_progress'' 2000)\<lparr>orders_processed := 0, total_orders := 0\<rparr>]
   \<and> rows_of (updateSyncProgress
         ((update_ok 2000 2000)\<lparr>upd_write := Some (ErrorReply ''write failed'')\<rparr>)
         ''store-1'' ''in_progress'' 0 0 None (db_of [example_row ''in_progress'' 0]))
       = [example_row ''in_progress'' 0]"
proof -
  let ?d = "db_of [example_row ''in_progress'' 0]"
  let ?e1 = "(update_ok 2000 2000)\<lparr>upd_tableCheck := Some (ErrorReply ''permission denied'')\<rparr>"
  let ?e2 = "(update_ok 2000 2000)\<lparr>upd_write := Some (ErrorReply ''write failed'')\<rparr>"
  note defs = db_of_def rows_of_def example_row_def update_ok_def requests_go_through_def
    active_def unique_ids_def at_most_one_active_def
  have f: "filter (active ''store-1'') (rows_of ?d) = [example_row ''in_progress'' 0]"
    by (simp add: defs)
  have 1: "at_most_one_active ''store-1''
     (rows_of (start_calls [update_ok 1000 1000, update_ok 2000 2000] ''store-1'' (db_of [])))"
    using at_most_one_active_start [of "db_of []" "''store-1''"
        "[update_ok 1000 1000, update_ok 2000 2000]" "''store-1''"]
    by (simp add: db_of_def rows_of_def unique_ids_def at_most_one_active_def)
  have 2: "rows_of (updateSyncProgress (update_ok 2000 2000) ''store-1'' ''in_progress'' 0 0
         None ?d)
       = [(example_row ''in_progress'' 2000)\<lparr>orders_processed := 0, total_orders := 0\<rparr>]"
    using at_most_one_active_start [of ?d "''store-1''" "[]" "''store-1''" "update_ok 2000 2000"]
    by (simp add: defs)
  have 3: "rows_of (updateSyncProgress ?e1 ''store-1'' ''in_progress'' 0 0 None ?d)
       = [(example_row ''in_progress'' 2000)\<lparr>orders_processed := 0, total_orders := 0\<rparr>]"
    using at_most_one_active_start [of ?d "''store-1''" "[]" "''store-1''" ?e1]
    by (simp add: defs)
  have 4: "rows_of (updateSyncProgress ?e2 ''store-1'' ''in_progress'' 0 0 None ?d)
       = [example_row ''in_progress'' 0]"
    using at_most_one_active_start [of ?d "''store-1''" "[]" "''store-1''" ?e2]
    by (simp add: defs)
  from 1 f 2 3 4 show ?thesis by simp
qed

text \<open>
  The claim as stated fails: the second start call, made at time 2000, does not leave the
  record of the first call, made at time 1000, unchanged. It moves \<open>updated_at\<close>.
\<close>

theorem second_start_counterexample:
  "rows_of (start_calls [update_ok 1000 1000] ''store-1'' (db_of [])) =
     [\<lparr>row_id = 1, store_id = ''store-1'', status = ''in_progress'', orders_processed = 0,
       total_orders = 0, updated_at = 1000, notes = None, connection_id = ''PLACEHOLDER'',
       current_page = 1, started_at = 1000\<rparr>]
   \<and> rows_of (start_calls [update_ok 1000 1000, update_ok 2000 2000] ''store-1'' (db_of [])) =
     [\<lparr>row_id = 1, store_id = ''store-1'', status = ''in_progress'', orders_processed = 0,
       total_orders = 0, updated_at = 2000, notes = None, connection_id = ''PLACEHOLDER'',
       current_page = 1, started_at = 1000\<rparr>]"
  by (simp add: eval_defs)

text \<open>
  C2 (terminal immutability), as amended. In a table with unique ids, a record whose
  status is not \<^verbatim>\<open>in_progress\<close> is left as it is, in every field, by every call of
  \<^verbatim>\<open>updateSyncProgress\<close> and of \<^verbatim>\<open>getSyncProgress\<close>, whatever the arguments and whatever
  the requests do. The call is not a no-op on the table, though: when the store has no
  record in progress and the requests succeed, the table has one more record
  afterwards.
\<close>

theorem terminal_record_unchanged:
  assumes "unique_ids (rows_of d)" and "r \<in> set (rows_of d)" and "status r \<noteq> ''in_progress''"
  shows "r \<in> set (rows_of (updateSyncProgress env s st c t n d))
     \<and> unique_ids (rows_of (updateSyncProgress env s st c t n d))
     \<and> r \<in> set (rows_of (snd (getSyncProgress env' s' d)))
     \<and> unique_ids (rows_of (snd (getSyncProgress env' s' d)))
     \<and> (sync_progress d \<noteq> None \<and> upd_tableCheck env = None \<and> upd_fetch env = None
          \<and> upd_write env = None \<and> filter (active s) (rows_of d) = []
        \<longrightarrow> length (rows_of (updateSyncProgress env s st c t n d)) = Suc (length (rows_of d)))"
proof (intro conjI impI)
  assume a: "sync_progress d \<noteq> None \<and> upd_tableCheck env = None \<and> upd_fetch env = None
          \<and> upd_write env = None \<and> filter (active s) (rows_of d) = []"
  then obtain rows where rows: "sync_progress d = Some rows" by auto
  with a have "filter (active s) rows = []" by simp
  from updateSyncProgress_insert [OF rows _ _ _ this, of env st c t n] a rows
  show "length (rows_of (updateSyncProgress env s st c t n d)) = Suc (length (rows_of d))"
    by (simp add: rows_of_def)
next
  show "r \<in> set (rows_of (updateSyncProgress env s st c t n d))"
  proof (cases rule: updateSyncProgress_rows [of env s st c t n d])
    case same
    with assms show ?thesis by simp
  next
    case (upd a)
    from upd(1) have a: "a \<in> set (rows_of d)" "active s a"
      using filter_singleton_mem [of "active s" "rows_of d" a] by simp_all
    with assms have "row_id r \<noteq> row_id a"
      using unique_ids_same_id [of "rows_of d" r a] by (auto simp: active_def)
    with assms(2) show ?thesis unfolding upd(2) by (rule patch_keeps_other_rows)
  next
    case ins
    with assms show ?thesis by simp
  qed
  show "r \<in> set (rows_of (snd (getSyncProgress env' s' d)))"
  proof (cases rule: getSyncProgress_rows [of env' s' d])
    case same
    with assms show ?thesis by simp
  next
    case (stale a)
    from stale(1) have "a \<in> set (rows_of d)"
      using latest_row_mem [of "filter (\<lambda>x. store_id x = s') (rows_of d)" a] by simp
    with assms stale(2) have "row_id r \<noteq> row_id a"
      using unique_ids_same_id [of "rows_of d" r a] by auto
    with assms(2) show ?thesis unfolding stale(3) by (rule patch_keeps_other_rows)
  qed
qed (simp_all add: assms updateSyncProgress_unique_ids getSyncProgress_unique_ids)

text \<open>A report for store-1 after its record was completed.\<close>

theorem terminal_record_unchanged_witness:
  "unique_ids (rows_of (db_of [example_row ''completed'' 0]))
   \<and> status (example_row ''completed'' 0) \<noteq> ''in_progress''
   \<and> example_row ''completed'' 0
       \<in> set (rows_of (updateSyncProgress (update_ok 1000 1000) ''store-1'' ''in_progress'' 60 200
                  None (db_of [example_row ''completed'' 0])))
   \<and> example_row ''completed'' 0
       \<in> set (rows_of (snd (getSyncProgress (get_ok 1200000 1200000) ''store-1''
                  (db_of [example_row ''completed'' 0]))))
   \<and> length (rows_of (updateSyncProgress (update_ok 1000 1000) ''store-1'' ''in_progress'' 60 200
         None (db_of [example_row ''completed'' 0]))) = 2"
  using terminal_record_unchanged [of "db_of [example_row ''completed'' 0]"
      "example_row ''completed'' 0" "update_ok 1000 1000" "''store-1''" "''in_progress''" 60 200
      None "get_ok 1200000 1200000" "''store-1''"]
  by (simp add: db_of_def example_row_def unique_ids_def rows_of_def update_ok_def active_def)

text \<open>
  The claim as stated fails: after the record of store-1 was completed, a report
  creates a new record, in progress.
\<close>

theorem terminal_record_counterexample:
  "rows_of (updateSyncProgress (update_ok 1000 1000) ''store-1'' ''in_progress'' 60 200 None
       (db_of [example_row ''completed'' 0])) =
     [example_row ''completed'' 0,
      \<lparr>row_id = 2, store_id = ''store-1'', status = ''in_progress'', orders_processed = 60,
       total_orders = 200, updated_at = 1000, notes = None, connection_id = ''PLACEHOLDER'',
       current_page = 1, started_at = 1000\<rparr>]"
  by (simp add: eval_defs)

text \<open>
  C4 (a write without an active record), as amended. A call of \<^verbatim>\<open>updateSyncProgress\<close>
  for a store without a record in progress changes no existing record and returns
  normally (every path of the function returns, the outer \<^verbatim>\<open>try\<close> catching what is
  thrown). It is not a no-op: when the table exists and the requests succeed it
  appends a new record that carries the status, the counters and the notes of the
  call.
\<close>

theorem report_without_active_record:
  assumes "filter (active s) (rows_of d) = []"
  shows "(\<exists>extra. rows_of (updateSyncProgress env s st c t n d) = rows_of d @ extra)
     \<and> (sync_progress d \<noteq> None \<and> upd_tableCheck env = None \<and> upd_fetch env = None
          \<and> upd_write env = None
        \<longrightarrow> rows_of (updateSyncProgress env s st c t n d) =
            rows_of d @
              [\<lparr>row_id = fresh_id (rows_of d), store_id = s, status = st, orders_processed = c,
                total_orders = t, updated_at = upd_now env, notes = notes_or_null n,
                connection_id = ''PLACEHOLDER'', current_page = 1,
                started_at = upd_now_insert env\<rparr>])"
proof (intro conjI impI)
  show "\<exists>extra. rows_of (updateSyncProgress env s st c t n d) = rows_of d @ extra"
  proof (cases rule: updateSyncProgress_rows [of env s st c t n d])
    case same
    then show ?thesis by simp
  next
    case (upd a)
    with assms show ?thesis by simp
  next
    case ins
    then show ?thesis by simp
  qed
next
  assume a: "sync_progress d \<noteq> None \<and> upd_tableCheck env = None \<and> upd_fetch env = None
          \<and> upd_write env = None"
  then obtain rows where rows: "sync_progress d = Some rows" by auto
  with assms have "filter (active s) rows = []" by simp
  from updateSyncProgress_insert [OF rows _ _ _ this, of env st c t n] a rows
  show "rows_of (updateSyncProgress env s st c t n d) =
            rows_of d @
              [\<lparr>row_id = fresh_id (rows_of d), store_id = s, status = st, orders_processed = c,
                total_orders = t, updated_at = upd_now env, notes = notes_or_null n,
                connection_id = ''PLACEHOLDER'', current_page = 1,
                started_at = upd_now_insert env\<rparr>]"
    by (simp add: rows_of_def)
qed

text \<open>A report with notes for store-1 after its record was completed.\<close>

theorem report_without_active_record_witness:
  "filter (active ''store-1'') (rows_of (db_of [example_row ''completed'' 0])) = []
   \<and> rows_of (updateSyncProgress (update_ok 1000 1000) ''store-1'' ''in_progress'' 70 200
        (Some ''page 2'') (db_of [example_row ''completed'' 0])) =
      [example_row ''completed'' 0,
       \<lparr>row_id = 2, store_id = ''store-1'', status = ''in_progress'', orders_processed = 70,
        total_orders = 200, updated_at = 1000, notes = Some ''page 2'',
        connection_id = ''PLACEHOLDER'', current_page = 1, started_at = 1000\<rparr>]"
  using report_without_active_record [of "''store-1''" "db_of [example_row ''completed'' 0]"
      "update_ok 1000 1000" "''in_progress''" 70 200 "Some ''page 2''"]
  by (simp add: active_def db_of_def example_row_def rows_of_def update_ok_def fresh_id_def
        notes_or_null_def)

text \<open>
  The claim as stated fails: a report that arrives after the stale reconciliation has
  marked the record of store-1 as failed changes the table, it adds a record.
\<close>

theorem stale_write_counterexample:
  "sync_progress (updateSyncProgress (update_ok 1300000 1300000) ''store-1'' ''in_progress'' 60
       200 None
       (db_of [(example_row ''failed'' 1200001)
                 \<lparr>notes := Some ''Sync timed out after 15 minutes of inactivity''\<rparr>])) =
     Some [(example_row ''failed'' 1200001)
             \<lparr>notes := Some ''Sync timed out after 15 minutes of inactivity''\<rparr>,
           \<lparr>row_id = 2, store_id = ''store-1'', status = ''in_progress'', orders_processed = 60,
            total_orders = 200, updated_at = 1300000, notes = None,
            connection_id = ''PLACEHOLDER'', current_page = 1, started_at = 1300000\<rparr>]"
  by (simp add: eval_defs)

text \<open>
  C8 (provisioning when the table is absent), as amended. When the table check of
  \<^verbatim>\<open>updateSyncProgress\<close> finds the table absent, or is answered with an error, the
  next request is the call of \<^verbatim>\<open>create_sync_progress_table\<close>; when that call fails,
  no further request is made and the table is as before. \<^verbatim>\<open>getSyncProgress\<close> makes no
  provisioning attempt: finding the table absent, it makes no further request and
  returns \<open>success = true\<close> and \<open>inProgress = false\<close>.
\<close>

theorem provisioning_on_absence:
  "(upd_tableCheck env = None \<and> sync_progress d = None
      \<or> upd_tableCheck env = Some (ErrorReply m)
    \<longrightarrow> (\<exists>rest. calls (updateSyncProgress env s st c t n d)
                  = calls d @ [CheckTable, CreateTable] @ rest
          \<and> (upd_createTable env \<noteq> None
              \<longrightarrow> rest = []
                  \<and> sync_progress (updateSyncProgress env s st c t n d) = sync_progress d)))
   \<and> (get_tableCheck genv = None \<and> sync_progress d = None
    \<longrightarrow> getSyncProgress genv s d
          = (result True None False, d\<lparr>calls := calls d @ [CheckTable]\<rparr>))"
proof (intro conjI impI)
  assume "get_tableCheck genv = None \<and> sync_progress d = None"
  then show "getSyncProgress genv s d
          = (result True None False, d\<lparr>calls := calls d @ [CheckTable]\<rparr>)"
    by (simp add: getSyncProgress_def select_table_exists_def db_request_def db_same_table)
next
  assume a: "upd_tableCheck env = None \<and> sync_progress d = None
      \<or> upd_tableCheck env = Some (ErrorReply m)"
  let ?d1 = "d\<lparr>calls := calls d @ [CheckTable]\<rparr>"
  show "\<exists>rest. calls (updateSyncProgress env s st c t n d)
                  = calls d @ [CheckTable, CreateTable] @ rest
          \<and> (upd_createTable env \<noteq> None
              \<longrightarrow> rest = []
                  \<and> sync_progress (updateSyncProgress env s st c t n d) = sync_progress d)"
  proof (cases "upd_createTable env")
    case (Some f)
    with a have "updateSyncProgress env s st c t n d
        = d\<lparr>calls := calls d @ [CheckTable, CreateTable]\<rparr>"
      by (cases f)
         (auto simp: updateSyncProgress_def ensure_table_def select_table_exists_def
            rpc_create_sync_progress_table_def db_request_def db_same_table Let_def)
    with Some show ?thesis by simp
  next
    case None
    with a have e: "ensure_table env d
        = (True, d\<lparr>calls := calls d @ [CheckTable, CreateTable],
                  sync_progress := Some (rows_of d)\<rparr>)"
      by (auto simp: ensure_table_def select_table_exists_def
            rpc_create_sync_progress_table_def db_request_def rows_of_def Let_def
          split: option.splits)
    have "\<exists>rest. calls (updateSyncProgress env s st c t n d)
                  = calls d @ [CheckTable, CreateTable] @ rest"
      by (auto simp: updateSyncProgress_def e select_in_progress_def update_by_id_def
            insert_row_def db_request_def Let_def
          split: option.splits fault.splits list.splits)
    with None show ?thesis by simp
  qed
qed

text \<open>A start call and a read on a database without the table; provisioning is denied.\<close>

theorem provisioning_on_absence_witness:
  "updateSyncProgress ((update_ok 1000 1000)\<lparr>upd_createTable := Some (ErrorReply ''denied'')\<rparr>)
       ''store-1'' ''in_progress'' 0 0 None \<lparr>sync_progress = None, calls = []\<rparr>
     = \<lparr>sync_progress = None, calls = [CheckTable, CreateTable]\<rparr>
   \<and> getSyncProgress (get_ok 1000 1000) ''store-1'' \<lparr>sync_progress = None, calls = []\<rparr>
     = (result True None False, \<lparr>sync_progress = None, calls = [CheckTable]\<rparr>)"
proof -
  let ?e = "(update_ok 1000 1000)\<lparr>upd_createTable := Some (ErrorReply ''denied'')\<rparr>"
  let ?d = "\<lparr>sync_progress = None, calls = []\<rparr>"
  from provisioning_on_absence [of ?e ?d "''x''" "''store-1''" "''in_progress''" 0 0 None
      "get_ok 1000 1000"]
  have "calls (updateSyncProgress ?e ''store-1'' ''in_progress'' 0 0 None ?d)
          = [CheckTable, CreateTable]
      \<and> sync_progress (updateSyncProgress ?e ''store-1'' ''in_progress'' 0 0 None ?d) = None"
    and 2: "getSyncProgress (get_ok 1000 1000) ''store-1'' ?d
     = (result True None False, \<lparr>sync_progress = None, calls = [CheckTable]\<rparr>)"
    by (auto simp: update_ok_def get_ok_def)
  then have "updateSyncProgress ?e ''store-1'' ''in_progress'' 0 0 None ?d
     = \<lparr>sync_progress = None, calls = [CheckTable, CreateTable]\<rparr>"
    by (auto intro: db.equality)
  with 2 show ?thesis by simp
qed

text \<open>
  The claim as stated fails: a read that finds the table absent does not call
  \<^verbatim>\<open>create_sync_progress_table\<close>.
\<close>

theorem read_does_not_provision_counterexample:
  "CreateTable \<notin> set (calls (snd (getSyncProgress (get_ok 1000 1000) ''store-1''
       \<lparr>sync_progress = None, calls = []\<rparr>)))"
  by (simp add: getSyncProgress_def select_table_exists_def db_request_def get_ok_def)

end
